theory Spec2Isabelle
  imports Main
begin

section \<open>Python values used by \<open>course_listings.py\<close>\<close>

text \<open>
  Exceptions are values of \<open>py_error\<close>; a computation that may raise returns
  \<open>py_error + 'a\<close> with \<open>Inl\<close> for the exception. The first seven constructors are
  the exceptions the lines of the module can raise. The last two are error names of the
  specification; no line of the module raises them.
\<close>

datatype py_error =
    KeyError | IndexError | ValueError | AttributeError | StopIteration | AssertionError
  | UnboundLocalError
  | OrphanContinuationRowError | RowParseError

subsection \<open>Strings\<close>

text \<open>
  Strings are ASCII texts. \<open>lower\<close> is \<open>str.lower\<close>, \<open>strip\<close> is \<open>str.strip\<close> without
  argument, \<open>contains sub s\<close> is \<open>sub in s\<close>, \<open>split_on\<close> is \<open>str.split\<close> with a
  one-character separator.
\<close>

definition lower_char :: "char \<Rightarrow> char" where
  "lower_char c =
     (let n = (of_char c :: nat) in if 65 \<le> n \<and> n \<le> 90 then char_of (n + 32) else c)"

definition lower :: "string \<Rightarrow> string" where
  "lower s = map lower_char s"

fun contains :: "string \<Rightarrow> string \<Rightarrow> bool" where
  "contains sub [] = (sub = [])"
| "contains sub (c # cs) = (take (length sub) (c # cs) = sub \<or> contains sub cs)"

definition is_space :: "char \<Rightarrow> bool" where
  "is_space c = ((of_char c :: nat) \<in> {9, 10, 11, 12, 13, 28, 29, 30, 31, 32})"

definition strip :: "string \<Rightarrow> string" where
  "strip s = rev (dropWhile is_space (rev (dropWhile is_space s)))"

fun split_on :: "char \<Rightarrow> string \<Rightarrow> string list" where
  "split_on sep [] = [[]]"
| "split_on sep (c # cs) =
     (if c = sep then [] # split_on sep cs
      else (case split_on sep cs of [] \<Rightarrow> [[c]] | w # ws \<Rightarrow> (c # w) # ws))"

subsection \<open>\<open>int(str)\<close> and \<open>"%d" % int\<close>\<close>

definition is_digit :: "char \<Rightarrow> bool" where
  "is_digit c = (48 \<le> (of_char c :: nat) \<and> (of_char c :: nat) \<le> 57)"

definition digit_val :: "char \<Rightarrow> nat" where
  "digit_val c = of_char c - 48"

text \<open>
  The digits after the first one: single underscores are allowed between two digits.
\<close>

fun parse_digits :: "nat \<Rightarrow> string \<Rightarrow> nat option" where
  "parse_digits acc [] = Some acc"
| "parse_digits acc [c] = (if is_digit c then Some (acc * 10 + digit_val c) else None)"
| "parse_digits acc (c # c' # cs) =
     (if is_digit c then parse_digits (acc * 10 + digit_val c) (c' # cs)
      else if c = CHR ''_'' \<and> is_digit c' then parse_digits (acc * 10 + digit_val c') cs
      else None)"

definition unsigned_int :: "string \<Rightarrow> py_error + nat" where
  "unsigned_int body =
     (case body of
        [] \<Rightarrow> Inl ValueError
      | b # bs \<Rightarrow>
          if is_digit b
          then (case parse_digits (digit_val b) bs of
                  None \<Rightarrow> Inl ValueError
                | Some n \<Rightarrow> Inr n)
          else Inl ValueError)"

definition py_int :: "string \<Rightarrow> py_error + int" where
  "py_int s =
     (case strip s of
        [] \<Rightarrow> Inl ValueError
      | c # cs \<Rightarrow>
          if c = CHR ''-'' then map_sum id (\<lambda>n. - int n) (unsigned_int cs)
          else if c = CHR ''+'' then map_sum id int (unsigned_int cs)
          else map_sum id int (unsigned_int (c # cs)))"

fun nat_digits :: "nat \<Rightarrow> string" where
  "nat_digits n =
     (if n < 10 then [char_of (48 + n)]
      else nat_digits (n div 10) @ [char_of (48 + n mod 10)])"

declare nat_digits.simps [simp del]

definition str_of_int :: "int \<Rightarrow> string" where
  "str_of_int i = (if i < 0 then CHR ''-'' # nat_digits (nat (- i)) else nat_digits (nat i))"

subsection \<open>Sequencing of computations that may raise\<close>

definition and_then :: "py_error + 'a \<Rightarrow> ('a \<Rightarrow> py_error + 'b) \<Rightarrow> py_error + 'b" where
  "and_then r f = (case r of Inl e \<Rightarrow> Inl e | Inr v \<Rightarrow> f v)"

section \<open>Rows of a department page\<close>

text \<open>
  A cell is what \<open>stripped_or_none\<close> returns: \<open>None\<close> or a text. A row is one of the
  little dictionaries of \<open>course_dicts\<close>, from a header to a cell; \<open>getitem\<close> is \<open>d[k]\<close>
  on any dictionary.
\<close>

type_synonym cell = "string option"
type_synonym row = "string \<rightharpoonup> cell"

definition stripped_or_none :: "string \<Rightarrow> cell" where
  "stripped_or_none text_content =
     (let stripped = strip text_content in if stripped \<noteq> [] then Some stripped else None)"

definition getitem :: "('k \<rightharpoonup> 'v) \<Rightarrow> 'k \<Rightarrow> py_error + 'v" where
  "getitem d k = (case d k of None \<Rightarrow> Inl KeyError | Some v \<Rightarrow> Inr v)"

text \<open>\<open>dict(items)\<close>: of two items with the same key the later one stays.\<close>

definition py_dict :: "('k \<times> 'v) list \<Rightarrow> ('k \<rightharpoonup> 'v)" where
  "py_dict items = map_of (rev items)"

text \<open>Truth value of a cell: \<open>None\<close> and the empty text are false.\<close>

definition truthy :: "cell \<Rightarrow> bool" where
  "truthy c = (case c of None \<Rightarrow> False | Some s \<Rightarrow> s \<noteq> [])"

text \<open>A method call on a cell: \<open>None\<close> has no string methods.\<close>

definition str_of :: "cell \<Rightarrow> py_error + string" where
  "str_of c = (case c of None \<Rightarrow> Inl AttributeError | Some s \<Rightarrow> Inr s)"

record course_meeting =
  days :: cell
  periods :: cell
  building :: cell
  room :: cell

record course_code =
  prefix :: string
  number :: string

record course =
  course_code :: course_code
  section_number :: cell
  title :: cell
  credits :: int
  meetings :: "course_meeting list"
  gen_ed_credit :: cell
  gordon_rule :: cell
  instructors :: "string list"

section \<open>\<open>Department.force_load\<close>: from rows to courses\<close>

definition build_meeting :: "row \<Rightarrow> py_error + course_meeting option" where
  "build_meeting d =
     and_then (getitem d ''day(s)'') (\<lambda>day.
       case day of
         None \<Rightarrow> Inr None
       | Some s \<Rightarrow>
           if s = [] \<or> contains ''tba'' (lower s) then Inr None
           else
             and_then (getitem d ''period'') (\<lambda>p.
             and_then (getitem d ''bldg'') (\<lambda>b.
             and_then (getitem d ''room'') (\<lambda>r.
               Inr (Some \<lparr>days = day, periods = p, building = b, room = r\<rparr>)))))"

text \<open>
  The credits expression of a primary row:
  \<open>int(d["cred"]) if "var" not in d["cred"].lower() else -1\<close>.
\<close>

definition parse_credits :: "row \<Rightarrow> py_error + int" where
  "parse_credits d =
     and_then (getitem d ''cred'') (\<lambda>c.
     and_then (str_of c) (\<lambda>s.
       if \<not> contains ''var'' (lower s) then py_int s else Inr (- 1)))"

definition parse_instructors :: "row \<Rightarrow> py_error + string list" where
  "parse_instructors d =
     and_then (getitem d ''instructor(s)'') (\<lambda>c.
     and_then (str_of c) (\<lambda>s.
       Inr (map strip (split_on (CHR 0x0A) s))))"

text \<open>
  The body of the primary-row branch, in the order in which Python evaluates it: the
  credits, the meeting, then the arguments of \<open>courses.Course\<close> from left to right,
  then the call. The class \<open>Course\<close> is not part of this module; it turns the text of
  the course cell into a course code, which is the parameter \<open>CourseCode\<close>.
\<close>

definition build_course ::
  "(string \<Rightarrow> py_error + course_code) \<Rightarrow> string \<Rightarrow> row \<Rightarrow> py_error + course" where
  "build_course CourseCode code_text d =
     and_then (parse_credits d) (\<lambda>cr.
     and_then (build_meeting d) (\<lambda>meeting.
     and_then (getitem d ''sect'') (\<lambda>sect.
     and_then (getitem d ''course title & textbook(s)'') (\<lambda>ttl.
     and_then (getitem d ''ge'') (\<lambda>ge.
     and_then (getitem d ''wm'') (\<lambda>wm.
     and_then (parse_instructors d) (\<lambda>ins.
     and_then (CourseCode code_text) (\<lambda>cc.
       Inr \<lparr>course_code = cc, section_number = sect, title = ttl, credits = cr,
            meetings = (case meeting of None \<Rightarrow> [] | Some m \<Rightarrow> [m]),
            gen_ed_credit = ge, gordon_rule = wm, instructors = ins\<rparr>))))))))"

text \<open>
  \<open>base_course_list[-1].meetings.append(meeting)\<close>: the last course gets one more
  meeting; on the empty list the index raises. The tests \<open>if meeting\<close> take a
  \<open>CourseMeeting\<close> object to be true and \<open>None\<close> to be false.
\<close>

definition append_meeting :: "course list \<Rightarrow> course_meeting \<Rightarrow> py_error + course list" where
  "append_meeting base_course_list m =
     (if base_course_list = [] then Inl IndexError
      else Inr (butlast base_course_list @
                [(last base_course_list)\<lparr>meetings := meetings (last base_course_list) @ [m]\<rparr>]))"

text \<open>
  One turn of the loop \<open>for d in course_dicts\<close>: the branch of a row whose course cell
  is false, then the whole turn.
\<close>

definition continuation_row :: "course list \<Rightarrow> row \<Rightarrow> py_error + course list" where
  "continuation_row base_course_list d =
     and_then (build_meeting d) (\<lambda>meeting.
       case meeting of
         None \<Rightarrow> Inr base_course_list
       | Some m \<Rightarrow> append_meeting base_course_list m)"

definition process_row ::
  "(string \<Rightarrow> py_error + course_code) \<Rightarrow> course list \<Rightarrow> row \<Rightarrow> py_error + course list" where
  "process_row CourseCode base_course_list d =
     and_then (getitem d ''course'') (\<lambda>crs.
       if truthy crs then
         and_then (str_of crs) (\<lambda>code_text.
         and_then (build_course CourseCode code_text d) (\<lambda>c.
           Inr (base_course_list @ [c])))
       else continuation_row base_course_list d)"

fun assemble_from ::
  "(string \<Rightarrow> py_error + course_code) \<Rightarrow> course list \<Rightarrow> row list \<Rightarrow> py_error + course list" where
  "assemble_from CourseCode base_course_list [] = Inr base_course_list"
| "assemble_from CourseCode base_course_list (d # ds) =
     and_then (process_row CourseCode base_course_list d) (\<lambda>l.
       assemble_from CourseCode l ds)"

text \<open>Lines 417 to 441: the loop started on the empty \<open>base_course_list\<close>.\<close>

definition assemble ::
  "(string \<Rightarrow> py_error + course_code) \<Rightarrow> row list \<Rightarrow> py_error + course list" where
  "assemble CourseCode course_dicts = assemble_from CourseCode [] course_dicts"


section \<open>\<open>CourseReader.__parallel_lists_to_tuple_dict\<close>\<close>

text \<open>
  The dictionary is a map; the lists it holds become tuples at the end, which are lists
  here as well.
\<close>

fun tuple_dict_loop :: "('a \<rightharpoonup> 'b list) \<Rightarrow> ('a \<times> 'b) list \<Rightarrow> ('a \<rightharpoonup> 'b list)" where
  "tuple_dict_loop tuple_dict [] = tuple_dict"
| "tuple_dict_loop tuple_dict ((a, b) # rest) =
     (let b_list = (case tuple_dict a of None \<Rightarrow> [] | Some l \<Rightarrow> l)
      in tuple_dict_loop (tuple_dict(a \<mapsto> b_list @ [b])) rest)"

definition parallel_lists_to_tuple_dict :: "'a list \<Rightarrow> 'b list \<Rightarrow> ('a \<rightharpoonup> 'b list)" where
  "parallel_lists_to_tuple_dict list_a list_b = tuple_dict_loop Map.empty (zip list_a list_b)"

section \<open>The browser and the collaborators outside the module\<close>

text \<open>
  The browser is shared by the reader and its departments, so its state is passed
  beside them: the urls it has loaded so far, in order. The record \<open>collaborators\<close>
  holds what the module calls and does not define: the classes and functions of other
  modules, and the pages as the browser and the \<open>lxml\<close> selections deliver them (a page
  may depend on what the browser has loaded before).
\<close>

record browser =
  requests :: "string list"

record collaborators =
  CourseCode :: "string \<Rightarrow> py_error + course_code"
  replace_abbreviations :: "string \<Rightarrow> string"
  expand_relative_url :: "string \<Rightarrow> string \<Rightarrow> string"
  similar_zip :: "string list \<Rightarrow> string set \<Rightarrow> py_error + (string \<times> string) list"
  department_page :: "browser \<Rightarrow> string \<Rightarrow> py_error + row list"
  main_page ::
    "browser \<Rightarrow> string \<Rightarrow> py_error + ((string \<times> string) list \<times> (string \<times> string) list)"


section \<open>\<open>Department\<close>\<close>

record department =
  name :: string
  alternate_names :: "string list"
  abbreviated_names :: "string list"
  prefixes :: "string list"
  base_url :: string
  relative_url :: string
  course_list :: "course list option"
  loaded :: bool

definition Department_init ::
  "collaborators \<Rightarrow> string \<Rightarrow> string list \<Rightarrow> string list \<Rightarrow> string \<Rightarrow> string \<Rightarrow> department" where
  "Department_init C nm alts pfxs base rel =
     \<lparr>name = nm, alternate_names = alts,
      abbreviated_names = map (replace_abbreviations C) ([nm] @ alts),
      prefixes = pfxs, base_url = base, relative_url = rel,
      course_list = None, loaded = False\<rparr>"





section \<open>\<open>CourseReader\<close>\<close>

text \<open>
  The constructor's arguments: \<open>year\<close> is an int or a string; \<open>semester\<close> is compared
  with the three values of \<open>courses.Semesters\<close> and may be any other value.
\<close>

datatype year_arg = YearInt int | YearStr string

datatype semester = SPRING | SUMMER | FALL | OtherValue

record course_reader =
  reader_base_url :: string
  departments :: "department list option"
  reader_loaded :: bool

definition int_of_year :: "year_arg \<Rightarrow> py_error + int" where
  "int_of_year year = (case year of YearInt i \<Rightarrow> Inr i | YearStr s \<Rightarrow> py_int s)"

text \<open>
  The variable \<open>month\<close> after the \<open>if\<close>/\<open>elif\<close> chain of lines 57 to 62: \<open>None\<close> when no
  branch has assigned it.
\<close>

definition month_of :: "semester \<Rightarrow> string option" where
  "month_of sem =
     (if sem = SPRING then Some ''01''
      else if sem = SUMMER then Some ''06''
      else if sem = FALL then Some ''08''
      else None)"

definition CourseReader_init ::
  "year_arg \<Rightarrow> semester \<Rightarrow> bool \<Rightarrow> browser \<Rightarrow> (py_error + course_reader) \<times> browser" where
  "CourseReader_init year sem full b =
     (and_then (int_of_year year) (\<lambda>y.
        if y < 2001 then Inl KeyError
        else if \<not> full \<and> y < 2005 then Inl KeyError
        else
          (case month_of sem of
             None \<Rightarrow> Inl UnboundLocalError
           | Some month \<Rightarrow>
               Inr \<lparr>reader_base_url =
                      ''http://www.registrar.ufl.edu/soc/'' @ str_of_int y @ month @ ''/'' @
                      (if full then ''all'' else ''web'') @ ''/'',
                    departments = None, reader_loaded = False\<rparr>)),
      b)"

text \<open>Lines 187 to 196: one \<open>Department\<close> for each matched pair of names.\<close>

fun build_departments ::
  "collaborators \<Rightarrow> string \<Rightarrow> (string \<rightharpoonup> string) \<Rightarrow> (string \<rightharpoonup> string list) \<Rightarrow>
     department list \<Rightarrow> (string \<times> string) list \<Rightarrow> py_error + department list" where
  "build_departments C base url_lookup prefix_lookup deps [] = Inr deps"
| "build_departments C base url_lookup prefix_lookup deps
       ((department_menu_name, prefix_table_name) # rest) =
     (let alts = (if department_menu_name \<noteq> prefix_table_name
                  then [department_menu_name] else [])
      in and_then (getitem prefix_lookup prefix_table_name) (\<lambda>pfxs.
         and_then (getitem url_lookup department_menu_name) (\<lambda>rel.
           build_departments C base url_lookup prefix_lookup
             (deps @ [Department_init C prefix_table_name alts pfxs base rel]) rest)))"





section \<open>The specification's vocabulary\<close>

text \<open>
  A primary row has a true course cell, a continuation row a false one. A group is a
  primary row with the continuation rows that follow it up to the next primary row;
  \<open>record_of_group\<close> says that a course is the record of a group: the course built from
  the primary row, its meetings followed by those of the continuation rows, in order.
  \<open>meeting_expected\<close> is the specification's condition for a meeting: the day cell is not
  empty and its lowered text does not contain \<open>tba\<close>.
\<close>

definition is_primary :: "row \<Rightarrow> bool" where
  "is_primary d = (case d ''course'' of None \<Rightarrow> False | Some c \<Rightarrow> truthy c)"

definition is_continuation :: "row \<Rightarrow> bool" where
  "is_continuation d = (case d ''course'' of None \<Rightarrow> False | Some c \<Rightarrow> \<not> truthy c)"

definition row_meetings :: "row \<Rightarrow> course_meeting list" where
  "row_meetings d = (case build_meeting d of Inr (Some m) \<Rightarrow> [m] | _ \<Rightarrow> [])"

fun row_groups :: "row list \<Rightarrow> (row \<times> row list) list" where
  "row_groups [] = []"
| "row_groups (d # ds) =
     (if is_primary d then (d, takeWhile (\<lambda>r. \<not> is_primary r) ds) # row_groups ds
      else row_groups ds)"

definition record_of_group ::
  "(string \<Rightarrow> py_error + course_code) \<Rightarrow> row \<times> row list \<Rightarrow> course \<Rightarrow> bool" where
  "record_of_group CC g c =
     (case g of
        (d, conts) \<Rightarrow>
          (case d ''course'' of
             Some (Some code) \<Rightarrow>
               (case build_course CC code d of
                  Inr c0 \<Rightarrow> c = c0\<lparr>meetings := meetings c0 @ concat (map row_meetings conts)\<rparr>
                | Inl e \<Rightarrow> False)
           | _ \<Rightarrow> False))"

definition meeting_expected :: "cell \<Rightarrow> bool" where
  "meeting_expected day = (case day of None \<Rightarrow> False | Some s \<Rightarrow> s \<noteq> [] \<and> \<not> contains ''tba'' (lower s))"

text \<open>The last course of a list with more meetings; used to state the loop invariant.\<close>

definition attach :: "course list \<Rightarrow> course_meeting list \<Rightarrow> course list" where
  "attach acc ms =
     (if acc = [] then []
      else butlast acc @ [(last acc)\<lparr>meetings := meetings (last acc) @ ms\<rparr>])"

section \<open>Example inputs\<close>

text \<open>
  A course code class that accepts seven-character codes, and rows with the columns of a
  department page: the course, credits and day cells vary.
\<close>

definition example_CourseCode :: "string \<Rightarrow> py_error + course_code" where
  "example_CourseCode s =
     (if length s = 7 then Inr \<lparr>prefix = take 3 s, number = drop 3 s\<rparr> else Inl ValueError)"

definition example_row :: "cell \<Rightarrow> cell \<Rightarrow> cell \<Rightarrow> row" where
  "example_row crs cred day =
     py_dict [(''course'', crs), (''sect'', Some ''1''), (''cred'', cred),
              (''day(s)'', day), (''period'', Some ''3''), (''bldg'', Some ''LIT''),
              (''room'', Some ''101''), (''course title & textbook(s)'', Some ''Calculus 3''),
              (''ge'', None), (''wm'', None), (''instructor(s)'', Some ''Smith'')]"

definition example_meeting :: "string \<Rightarrow> course_meeting" where
  "example_meeting day =
     \<lparr>days = Some day, periods = Some ''3'', building = Some ''LIT'', room = Some ''101''\<rparr>"

definition example_course :: "int \<Rightarrow> course_meeting list \<Rightarrow> course" where
  "example_course cr ms =
     \<lparr>course_code = \<lparr>prefix = ''MAC'', number = ''2313''\<rparr>, section_number = Some ''1'',
      title = Some ''Calculus 3'', credits = cr, meetings = ms,
      gen_ed_credit = None, gordon_rule = None, instructors = [''Smith'']\<rparr>"

definition example_rows :: "row list" where
  "example_rows =
     [example_row (Some ''MAC2313'') (Some ''4'') (Some ''MWF''),
      example_row None None (Some ''T'')]"

definition example_menu :: "(string \<times> string) list" where
  "example_menu = [(''MATH'', ''math.html''), (''Physics'', ''phys.html'')]"

definition example_table :: "(string \<times> string) list" where
  "example_table = [(''MAC'', ''Mathematics''), (''PHY'', ''Physics''), (''MAP'', ''Mathematics'')]"

definition example_collaborators :: collaborators where
  "example_collaborators =
     \<lparr>CourseCode = example_CourseCode,
      replace_abbreviations = (\<lambda>s. s),
      expand_relative_url = (\<lambda>rel base. base @ rel),
      similar_zip = (\<lambda>menu tbl. Inr (map (\<lambda>m. (m, if m = ''MATH'' then ''Mathematics'' else m)) menu)),
      department_page = (\<lambda>b url. Inr example_rows),
      main_page = (\<lambda>b url. Inr (example_menu, example_table))\<rparr>"

definition example_base_url :: string where
  "example_base_url = ''http://www.registrar.ufl.edu/soc/201108/all/''"


definition example_reader :: course_reader where
  "example_reader = \<lparr>reader_base_url = example_base_url, departments = None, reader_loaded = False\<rparr>"

definition example_departments :: "department list" where
  "example_departments =
     [Department_init example_collaborators ''Mathematics'' [''MATH''] [''MAC'', ''MAP'']
        example_base_url ''math.html'',
      Department_init example_collaborators ''Physics'' [] [''PHY'']
        example_base_url ''phys.html'']"

section \<open>The table assembler\<close>

lemma and_then_Inl [simp]: "and_then (Inl e) f = Inl e"
  by (simp add: and_then_def)

lemma and_then_Inr [simp]: "and_then (Inr v) f = f v"
  by (simp add: and_then_def)

lemma and_then_eq_Inr: "and_then r f = Inr y \<longleftrightarrow> (\<exists>v. r = Inr v \<and> f v = Inr y)"
  by (cases r) simp_all

lemma getitem_Some [simp]: "d k = Some v \<Longrightarrow> getitem d k = Inr v"
  by (simp add: getitem_def)

lemma getitem_None [simp]: "d k = None \<Longrightarrow> getitem d k = Inl KeyError"
  by (simp add: getitem_def)

lemma getitem_eq_Inr: "getitem d k = Inr v \<longleftrightarrow> d k = Some v"
  by (simp add: getitem_def split: option.splits)

lemma process_row_primary:
  "is_primary d \<Longrightarrow> process_row CC acc d = Inr acc' \<Longrightarrow>
     \<exists>code c0. d ''course'' = Some (Some code) \<and> code \<noteq> [] \<and>
       build_course CC code d = Inr c0 \<and> acc' = acc @ [c0]"
  by (auto simp: is_primary_def process_row_def truthy_def str_of_def and_then_eq_Inr
           split: option.splits)

lemma process_row_not_primary:
  "\<not> is_primary d \<Longrightarrow> process_row CC acc d = Inr acc' \<Longrightarrow>
     is_continuation d \<and> continuation_row acc d = Inr acc'"
  by (auto simp: is_primary_def is_continuation_def process_row_def getitem_def
           split: option.splits if_splits)

lemma continuation_row_result:
  "continuation_row acc d = Inr acc' \<Longrightarrow>
     acc' = (if row_meetings d = [] then acc else attach acc (row_meetings d)) \<and>
     (row_meetings d \<noteq> [] \<longrightarrow> acc \<noteq> [])"
  by (cases "build_meeting d")
     (auto simp: continuation_row_def row_meetings_def append_meeting_def attach_def
           split: option.splits if_splits)

lemma attach_nil [simp]: "attach acc [] = acc"
  by (simp add: attach_def)

lemma attach_attach [simp]: "attach (attach acc ms) ns = attach acc (ms @ ns)"
  by (simp add: attach_def)

lemma attach_snoc [simp]: "attach (acc @ [c]) ms = acc @ [c\<lparr>meetings := meetings c @ ms\<rparr>]"
  by (simp add: attach_def)

lemma assemble_from_groups:
  "assemble_from CC acc rows = Inr cs \<Longrightarrow>
     \<exists>new. cs = attach acc (concat (map row_meetings (takeWhile (\<lambda>r. \<not> is_primary r) rows))) @ new \<and>
           list_all2 (record_of_group CC) (row_groups rows) new"
proof (induction rows arbitrary: acc)
  case Nil
  then show ?case by simp
next
  case (Cons d rows)
  from Cons.prems obtain acc' where
    step: "process_row CC acc d = Inr acc'" and rest: "assemble_from CC acc' rows = Inr cs"
    by (auto simp: and_then_eq_Inr)
  let ?ms = "concat (map row_meetings (takeWhile (\<lambda>r. \<not> is_primary r) rows))"
  from Cons.IH [OF rest] obtain new where
    cs: "cs = attach acc' ?ms @ new" and all: "list_all2 (record_of_group CC) (row_groups rows) new"
    by blast
  show ?case
  proof (cases "is_primary d")
    case True
    from process_row_primary [OF True step] obtain code c0 where
      code: "d ''course'' = Some (Some code)" and c0: "build_course CC code d = Inr c0"
      and acc': "acc' = acc @ [c0]"
      by blast
    have "record_of_group CC (d, takeWhile (\<lambda>r. \<not> is_primary r) rows)
            (c0\<lparr>meetings := meetings c0 @ ?ms\<rparr>)"
      using code c0 by (simp add: record_of_group_def)
    with all True cs acc' show ?thesis by simp
  next
    case False
    from process_row_not_primary [OF False step] continuation_row_result [of acc d acc']
    have acc': "acc' = (if row_meetings d = [] then acc else attach acc (row_meetings d))"
      by simp
    with all False cs show ?thesis by auto
  qed
qed

lemma map_fst_row_groups: "map fst (row_groups rows) = filter is_primary rows"
  by (induction rows) simp_all

text \<open>
  Claim C1. When the assembly of a sequence of rows succeeds, its result has one course
  record for each primary row, in the order of the primary rows: the record built from
  that row, whose meetings are followed by the meetings of the continuation rows after it
  (up to the next primary row), in their order.
\<close>

theorem assemble_groups:
  "assemble CC rows = Inr cs \<Longrightarrow>
     map fst (row_groups rows) = filter is_primary rows \<and>
     list_all2 (record_of_group CC) (row_groups rows) cs"
  using assemble_from_groups [of CC "[]" rows cs]
  by (simp add: assemble_def map_fst_row_groups attach_def)

lemma example_assemble:
  "assemble example_CourseCode example_rows
   = Inr [example_course 4 [example_meeting ''MWF'', example_meeting ''T'']]"
  by code_simp

theorem assemble_groups_witness:
  "assemble example_CourseCode example_rows
     = Inr [example_course 4 [example_meeting ''MWF'', example_meeting ''T'']] \<and>
   list_all2 (record_of_group example_CourseCode) (row_groups example_rows)
     [example_course 4 [example_meeting ''MWF'', example_meeting ''T'']]"
  using assemble_groups [OF example_assemble] example_assemble by simp

lemma of_char_digit: "k < 10 \<Longrightarrow> (of_char (char_of (48 + k :: nat)) :: nat) = 48 + k"
  by simp

lemma is_digit_char_of: "k < 10 \<Longrightarrow> is_digit (char_of (48 + k :: nat))"
  by (simp add: is_digit_def of_char_digit)

lemma digit_val_char_of: "k < 10 \<Longrightarrow> digit_val (char_of (48 + k :: nat)) = k"
  by (simp add: digit_val_def of_char_digit)

lemma is_digit_not_space: "is_digit c \<Longrightarrow> \<not> is_space c"
  by (auto simp: is_digit_def is_space_def)

lemma nat_digits_digits: "nat_digits n \<noteq> [] \<and> (\<forall>c \<in> set (nat_digits n). is_digit c)"
proof (induction n rule: nat_digits.induct)
  case (1 n)
  show ?case
  proof (cases "n < 10")
    case True
    then show ?thesis by (simp add: nat_digits.simps [of n] is_digit_char_of)
  next
    case False
    with 1 show ?thesis by (simp add: nat_digits.simps [of n] is_digit_char_of)
  qed
qed

lemma parse_digits_all:
  "\<forall>c \<in> set ds. is_digit c \<Longrightarrow>
     parse_digits acc ds = Some (foldl (\<lambda>a c. a * 10 + digit_val c) acc ds)"
  by (induction acc ds rule: parse_digits.induct) simp_all

lemma unsigned_int_all:
  "ds \<noteq> [] \<Longrightarrow> \<forall>c \<in> set ds. is_digit c \<Longrightarrow>
     unsigned_int ds = Inr (foldl (\<lambda>a c. a * 10 + digit_val c) 0 ds)"
  by (cases ds) (simp_all add: unsigned_int_def parse_digits_all)

lemma value_nat_digits: "foldl (\<lambda>a c. a * 10 + digit_val c) 0 (nat_digits n) = n"
proof (induction n rule: nat_digits.induct)
  case (1 n)
  show ?case
  proof (cases "n < 10")
    case True
    then show ?thesis by (simp add: nat_digits.simps [of n] digit_val_char_of)
  next
    case False
    with 1 show ?thesis by (simp add: nat_digits.simps [of n] digit_val_char_of)
  qed
qed

lemma unsigned_int_nat_digits: "unsigned_int (nat_digits n) = Inr n"
  using nat_digits_digits [of n] by (simp add: unsigned_int_all value_nat_digits)

lemma strip_id: "s \<noteq> [] \<Longrightarrow> \<not> is_space (hd s) \<Longrightarrow> \<not> is_space (last s) \<Longrightarrow> strip s = s"
proof -
  assume ne: "s \<noteq> []" and h: "\<not> is_space (hd s)" and l: "\<not> is_space (last s)"
  from ne h have "dropWhile is_space s = s" by (cases s) simp_all
  moreover from ne l have "dropWhile is_space (rev s) = rev s"
    by (cases "rev s") (simp_all add: last_rev [symmetric] hd_rev)
  ultimately show ?thesis by (simp add: strip_def)
qed

text \<open>
  \<open>int\<close> reads back what \<open>"%d"\<close> prints, so \<open>py_int\<close> is the decimal reading of a text.
\<close>

lemma py_int_str_of_int: "py_int (str_of_int i) = Inr i"
proof (cases "i < 0")
  case True
  let ?ds = "nat_digits (nat (- i))"
  have ne: "?ds \<noteq> []" and dig: "\<forall>c \<in> set ?ds. is_digit c"
    using nat_digits_digits [of "nat (- i)"] by simp_all
  have "\<not> is_space (last (CHR ''-'' # ?ds))"
    using ne dig by (simp add: is_digit_not_space)
  moreover have "\<not> is_space (CHR ''-'')" by (simp add: is_space_def)
  ultimately have "strip (CHR ''-'' # ?ds) = CHR ''-'' # ?ds"
    by (simp add: strip_id)
  with True show ?thesis
    by (simp add: py_int_def str_of_int_def unsigned_int_nat_digits)
next
  case False
  let ?ds = "nat_digits (nat i)"
  have ne: "?ds \<noteq> []" and dig: "\<forall>c \<in> set ?ds. is_digit c"
    using nat_digits_digits [of "nat i"] by simp_all
  then obtain c cs where ds: "?ds = c # cs" by (cases ?ds) auto
  have c: "is_digit c" using dig ds by simp
  have "\<not> is_space (hd ?ds)" "\<not> is_space (last ?ds)"
    using ne dig by (simp_all add: is_digit_not_space)
  then have st: "strip ?ds = ?ds" using ne by (simp add: strip_id)
  have "c \<noteq> CHR ''-''" "c \<noteq> CHR ''+''"
    using c by (auto simp: is_digit_def)
  with False st ds unsigned_int_nat_digits [of "nat i"] show ?thesis
    by (simp add: py_int_def str_of_int_def)
qed

lemma py_int_error: "py_int s = Inl e \<Longrightarrow> e = ValueError"
  by (auto simp: py_int_def unsigned_int_def map_sum_def
           split: list.splits if_splits option.splits sum.splits)

lemma contains_self: "contains s s"
  by (cases s) simp_all

lemma build_course_credits:
  "build_course CC code d = Inr c \<Longrightarrow> parse_credits d = Inr (credits c)"
  by (auto simp: build_course_def and_then_eq_Inr)

lemma build_course_code:
  "build_course CC code d = Inr c \<Longrightarrow> CC code = Inr (course_code c)"
  by (auto simp: build_course_def and_then_eq_Inr)

lemma build_course_meetings:
  "build_course CC code d = Inr c \<Longrightarrow>
     \<exists>mt. build_meeting d = Inr mt \<and> meetings c = (case mt of None \<Rightarrow> [] | Some m \<Rightarrow> [m])"
  by (auto simp: build_course_def and_then_eq_Inr)

lemma example_row_cells:
  "example_row crs cred day ''course'' = Some crs"
  "example_row crs cred day ''cred'' = Some cred"
  "example_row crs cred day ''day(s)'' = Some day"
  "example_row crs cred day ''period'' = Some (Some ''3'')"
  "example_row crs cred day ''bldg'' = Some (Some ''LIT'')"
  "example_row crs cred day ''room'' = Some (Some ''101'')"
  by (simp_all add: example_row_def py_dict_def)

lemma lower_examples:
  "lower ''VAR'' = ''var''" "lower ''TBA'' = ''tba''" "lower ''T'' = ''t''" "lower ''abc'' = ''abc''"
  by code_simp+

text \<open>
  Claim C4. On a row whose credit cell holds a text, the credit value is \<open>int\<close> of the
  text, unless the lowered text contains \<open>var\<close>: then it is the sentinel \<open>-1\<close>, and no
  numeric parse happens. In particular \<open>VAR\<close> in any case gives the sentinel. The course
  record built from a primary row carries this value.
\<close>

theorem credit_value:
  assumes "d ''cred'' = Some (Some s)"
  shows "parse_credits d = (if contains ''var'' (lower s) then Inr (- 1) else py_int s) \<and>
         (lower s = ''var'' \<longrightarrow> parse_credits d = Inr (- 1)) \<and>
         (\<forall>code c. build_course CC code d = Inr c \<longrightarrow>
            Inr (credits c) = (if contains ''var'' (lower s) then Inr (- 1) else py_int s))"
proof -
  have pc: "parse_credits d = (if contains ''var'' (lower s) then Inr (- 1) else py_int s)"
    using assms by (simp add: parse_credits_def str_of_def)
  moreover have "lower s = ''var'' \<longrightarrow> parse_credits d = Inr (- 1)"
    using pc contains_self [of "''var''"] by auto
  moreover have "\<forall>code c. build_course CC code d = Inr c \<longrightarrow>
            Inr (credits c) = (if contains ''var'' (lower s) then Inr (- 1) else py_int s)"
    using pc build_course_credits [of CC _ d] by metis
  ultimately show ?thesis by blast
qed

lemma example_build_course_var:
  "build_course example_CourseCode ''MAC2313''
     (example_row (Some ''MAC2313'') (Some ''VAR'') (Some ''MWF''))
   = Inr (example_course (- 1) [example_meeting ''MWF''])"
  by code_simp

theorem credit_value_witness:
  "example_row (Some ''MAC2313'') (Some ''VAR'') (Some ''MWF'') ''cred'' = Some (Some ''VAR'') \<and>
   parse_credits (example_row (Some ''MAC2313'') (Some ''VAR'') (Some ''MWF'')) = Inr (- 1) \<and>
   credits (example_course (- 1) [example_meeting ''MWF'']) = - 1"
proof -
  let ?d = "example_row (Some ''MAC2313'') (Some ''VAR'') (Some ''MWF'')"
  have h: "?d ''cred'' = Some (Some ''VAR'')"
    by (simp add: example_row_cells)
  from credit_value [where d = "?d" and s = "''VAR''" and CC = example_CourseCode, OF h]
    example_build_course_var lower_examples(1) h
  show ?thesis
    by (simp add: example_course_def)
qed

lemma build_meeting_cases:
  assumes "d ''day(s)'' = Some day"
  shows "\<not> meeting_expected day \<Longrightarrow> build_meeting d = Inr None"
    and "meeting_expected day \<Longrightarrow> d ''period'' = Some p \<Longrightarrow> d ''bldg'' = Some bl \<Longrightarrow>
           d ''room'' = Some r \<Longrightarrow>
           build_meeting d = Inr (Some \<lparr>days = day, periods = p, building = bl, room = r\<rparr>)"
  using assms by (auto simp: build_meeting_def meeting_expected_def split: option.splits)

text \<open>
  Claim C5. On a row that has the day, period, building and room columns, a meeting is
  built from these four cells if and only if the day cell is not empty and its lowered
  text does not contain \<open>tba\<close>. When no meeting is built, a continuation row leaves the
  list of courses as it is, without error, and the course of a primary row has no
  meetings.
\<close>

theorem meeting_built_iff:
  assumes "d ''day(s)'' = Some day" and "d ''period'' = Some p" and "d ''bldg'' = Some bl"
    and "d ''room'' = Some r"
  shows "build_meeting d =
           (if meeting_expected day
            then Inr (Some \<lparr>days = day, periods = p, building = bl, room = r\<rparr>)
            else Inr None) \<and>
         (\<not> meeting_expected day \<and> is_continuation d \<longrightarrow> process_row CC cs d = Inr cs) \<and>
         (\<forall>code c. \<not> meeting_expected day \<and> build_course CC code d = Inr c \<longrightarrow> meetings c = [])"
proof -
  have bm: "build_meeting d =
           (if meeting_expected day
            then Inr (Some \<lparr>days = day, periods = p, building = bl, room = r\<rparr>)
            else Inr None)"
    using assms by (simp add: build_meeting_cases)
  moreover have "\<not> meeting_expected day \<and> is_continuation d \<longrightarrow> process_row CC cs d = Inr cs"
    using bm
    by (auto simp: is_continuation_def process_row_def continuation_row_def split: option.splits)
  moreover have "\<forall>code c. \<not> meeting_expected day \<and> build_course CC code d = Inr c \<longrightarrow> meetings c = []"
    using bm build_course_meetings [of CC _ d] by fastforce
  ultimately show ?thesis by blast
qed

lemma example_meeting_expected:
  "\<not> meeting_expected (Some ''TBA'')" "meeting_expected (Some ''T'')" "\<not> meeting_expected None"
  by code_simp+

lemma example_is_continuation: "is_continuation (example_row None cred day)"
  by (simp add: is_continuation_def example_row_cells truthy_def)

theorem meeting_built_witness:
  "build_meeting (example_row None None (Some ''TBA'')) = Inr None \<and>
   process_row example_CourseCode [example_course 4 []] (example_row None None (Some ''TBA''))
     = Inr [example_course 4 []] \<and>
   build_meeting (example_row None None (Some ''T'')) = Inr (Some (example_meeting ''T''))"
proof -
  let ?tba = "example_row None None (Some ''TBA'')"
  let ?t = "example_row None None (Some ''T'')"
  have tba: "?tba ''day(s)'' = Some (Some ''TBA'')" "?tba ''period'' = Some (Some ''3'')"
    "?tba ''bldg'' = Some (Some ''LIT'')" "?tba ''room'' = Some (Some ''101'')"
    by (simp_all add: example_row_cells)
  have t: "?t ''day(s)'' = Some (Some ''T'')" "?t ''period'' = Some (Some ''3'')"
    "?t ''bldg'' = Some (Some ''LIT'')" "?t ''room'' = Some (Some ''101'')"
    by (simp_all add: example_row_cells)
  from meeting_built_iff [where d = "?tba" and CC = example_CourseCode
        and cs = "[example_course 4 []]", OF tba]
    meeting_built_iff [where d = "?t" and CC = example_CourseCode and cs = "[]", OF t]
    example_meeting_expected example_is_continuation
  show ?thesis
    by (simp add: example_meeting_def)
qed

lemma assemble_from_append:
  "assemble_from CC acc (pre @ post) =
     and_then (assemble_from CC acc pre) (\<lambda>l. assemble_from CC l post)"
proof (induction pre arbitrary: acc)
  case Nil
  show ?case by simp
next
  case (Cons d pre)
  show ?case
    by (cases "process_row CC acc d") (simp_all add: Cons.IH)
qed

lemma silent_rows:
  "\<forall>r \<in> set pre. is_continuation r \<and> build_meeting r = Inr None \<Longrightarrow>
     assemble_from CC acc pre = Inr acc"
proof (induction pre)
  case Nil
  show ?case by simp
next
  case (Cons d pre)
  then have "process_row CC acc d = Inr acc"
    by (auto simp: is_continuation_def process_row_def continuation_row_def split: option.splits)
  with Cons show ?case by simp
qed

text \<open>
  Claim C6, as amended. When the first row that yields a meeting is a continuation row,
  and every row before it is a continuation row without a meeting, the assembly fails:
  the index \<open>[-1]\<close> on the empty list raises \<open>IndexError\<close>. The module defines no
  \<open>OrphanContinuationRowError\<close>.
\<close>

theorem orphan_continuation_index_error:
  assumes "\<forall>r \<in> set pre. is_continuation r \<and> build_meeting r = Inr None"
    and "is_continuation d" and "build_meeting d = Inr (Some m)"
  shows "assemble CC (pre @ d # post) = Inl IndexError"
proof -
  have "process_row CC [] d = Inl IndexError"
    using assms(2,3)
    by (auto simp: is_continuation_def process_row_def continuation_row_def append_meeting_def
             split: option.splits)
  then show ?thesis
    using silent_rows [OF assms(1), of CC "[]"]
    by (simp add: assemble_def assemble_from_append)
qed

lemma example_build_meeting:
  "build_meeting (example_row crs cred (Some ''TBA'')) = Inr None"
  "build_meeting (example_row crs cred (Some ''T'')) = Inr (Some (example_meeting ''T''))"
  using example_meeting_expected
  by (simp_all add: build_meeting_cases example_row_cells example_meeting_def)

theorem orphan_continuation_witness:
  "assemble example_CourseCode
     ([example_row None None (Some ''TBA'')] @ example_row None None (Some ''T'') # example_rows)
   = Inl IndexError"
  using orphan_continuation_index_error [where pre = "[example_row None None (Some ''TBA'')]"
      and d = "example_row None None (Some ''T'')" and m = "example_meeting ''T''"
      and CC = example_CourseCode and post = example_rows]
    example_build_meeting example_is_continuation
  by simp

text \<open>
  The claim as the specification states it fails on the single continuation row with the
  day \<open>T\<close>: the error is \<open>IndexError\<close>, not \<open>OrphanContinuationRowError\<close>.
\<close>

theorem orphan_continuation_counterexample:
  "assemble example_CourseCode [example_row None None (Some ''T'')] = Inl IndexError \<and>
   assemble example_CourseCode [example_row None None (Some ''T'')]
     \<noteq> Inl OrphanContinuationRowError"
proof -
  have "assemble example_CourseCode [example_row None None (Some ''T'')] = Inl IndexError"
    by code_simp
  then show ?thesis by simp
qed

text \<open>
  Claim C7, as amended. The assembler has no option and no \<open>RowParseError\<close>: the first
  primary row that fails aborts the whole assembly with the exception it raised, whatever
  rows follow. A credit text without \<open>var\<close> that \<open>int\<close> rejects raises \<open>ValueError\<close>; a
  course text that the course code class rejects makes the assembly fail as well.
\<close>

theorem unparseable_row_aborts:
  assumes "assemble CC pre = Inr cs" and "d ''course'' = Some (Some code)" and "code \<noteq> []"
  shows "(\<forall>s e. d ''cred'' = Some (Some s) \<and> \<not> contains ''var'' (lower s) \<and> py_int s = Inl e \<longrightarrow>
            assemble CC (pre @ d # post) = Inl ValueError) \<and>
         (\<forall>e. CC code = Inl e \<longrightarrow> (\<exists>e'. assemble CC (pre @ d # post) = Inl e')) \<and>
         (\<forall>e. build_course CC code d = Inl e \<longrightarrow> assemble CC (pre @ d # post) = Inl e)"
proof -
  have row: "process_row CC cs d = and_then (build_course CC code d) (\<lambda>c. Inr (cs @ [c]))"
    using assms(2,3) by (simp add: process_row_def truthy_def str_of_def)
  have whole: "assemble CC (pre @ d # post) =
      and_then (build_course CC code d) (\<lambda>c. assemble_from CC (cs @ [c]) post)"
    using assms(1) row
    by (cases "build_course CC code d") (simp_all add: assemble_def assemble_from_append)
  have cred: "\<forall>s e. d ''cred'' = Some (Some s) \<and> \<not> contains ''var'' (lower s) \<and> py_int s = Inl e \<longrightarrow>
            assemble CC (pre @ d # post) = Inl ValueError"
  proof (intro allI impI)
    fix s e
    assume h: "d ''cred'' = Some (Some s) \<and> \<not> contains ''var'' (lower s) \<and> py_int s = Inl e"
    then have "e = ValueError" using py_int_error by blast
    with h have "parse_credits d = Inl ValueError"
      by (simp add: parse_credits_def str_of_def)
    then have "build_course CC code d = Inl ValueError"
      by (simp add: build_course_def)
    with whole show "assemble CC (pre @ d # post) = Inl ValueError" by simp
  qed
  have code: "\<forall>e. CC code = Inl e \<longrightarrow> (\<exists>e'. assemble CC (pre @ d # post) = Inl e')"
  proof (intro allI impI)
    fix e
    assume "CC code = Inl e"
    then have "\<forall>c. build_course CC code d \<noteq> Inr c"
      using build_course_code [of CC code d] by auto
    then obtain e' where "build_course CC code d = Inl e'"
      by (cases "build_course CC code d") auto
    with whole show "\<exists>e'. assemble CC (pre @ d # post) = Inl e'" by simp
  qed
  have any: "\<forall>e. build_course CC code d = Inl e \<longrightarrow> assemble CC (pre @ d # post) = Inl e"
    using whole by simp
  from cred code any show ?thesis by blast
qed

lemma example_py_int: "py_int ''abc'' = Inl ValueError" "py_int ''4'' = Inr 4"
  by code_simp+

lemma example_contains_var: "\<not> contains ''var'' ''abc''"
  by code_simp

theorem unparseable_row_witness:
  "assemble example_CourseCode example_rows
     = Inr [example_course 4 [example_meeting ''MWF'', example_meeting ''T'']] \<and>
   assemble example_CourseCode
     (example_rows @ example_row (Some ''MAC2313'') (Some ''abc'') (Some ''MWF'') # example_rows)
     = Inl ValueError"
proof -
  let ?d = "example_row (Some ''MAC2313'') (Some ''abc'') (Some ''MWF'')"
  have c: "?d ''course'' = Some (Some ''MAC2313'')" and n: "''MAC2313'' \<noteq> []"
    and cr: "?d ''cred'' = Some (Some ''abc'')"
    by (simp_all add: example_row_cells)
  from unparseable_row_aborts [where d = "?d" and post = example_rows, OF example_assemble c n]
    cr example_py_int(1) example_contains_var lower_examples(4) example_assemble
  show ?thesis by simp
qed

text \<open>
  The claim as the specification states it fails on a primary row with the credit text
  \<open>abc\<close> followed by a good row: the error is \<open>ValueError\<close>, not \<open>RowParseError\<close>, and
  the good row is not assembled.
\<close>

theorem unparseable_row_counterexample:
  "assemble example_CourseCode
     (example_row (Some ''MAC2313'') (Some ''abc'') (Some ''MWF'') # example_rows) = Inl ValueError \<and>
   assemble example_CourseCode
     (example_row (Some ''MAC2313'') (Some ''abc'') (Some ''MWF'') # example_rows)
     \<noteq> Inl RowParseError"
proof -
  have "assemble example_CourseCode
     (example_row (Some ''MAC2313'') (Some ''abc'') (Some ''MWF'') # example_rows) = Inl ValueError"
    by code_simp
  then show ?thesis by simp
qed

section \<open>The grouped index\<close>

lemma tuple_dict_loop_lookup:
  "tuple_dict_loop m ps k =
     (if k \<in> fst ` set ps
      then Some ((case m k of None \<Rightarrow> [] | Some l \<Rightarrow> l) @ map snd (filter (\<lambda>p. fst p = k) ps))
      else m k)"
proof (induction ps arbitrary: m)
  case Nil
  show ?case by simp
next
  case (Cons p ps)
  obtain a b where p: "p = (a, b)" by (cases p)
  show ?case
    unfolding p by (auto simp add: Cons.IH Let_def image_iff filter_empty_conv)
qed

text \<open>
  Claim C3. For two lists of the same length, the dictionary has exactly the elements of
  the first list as keys, and each key maps to the values that stood beside it, in their
  original order.
\<close>

theorem grouped_index_lookup:
  "length list_a = length list_b \<Longrightarrow>
     dom (parallel_lists_to_tuple_dict list_a list_b) = set list_a \<and>
     (\<forall>k \<in> set list_a.
        parallel_lists_to_tuple_dict list_a list_b k =
          Some (map snd (filter (\<lambda>p. fst p = k) (zip list_a list_b))))"
proof -
  assume len: "length list_a = length list_b"
  then have keys: "fst ` set (zip list_a list_b) = set list_a"
    by (metis map_fst_zip set_map)
  have look: "\<And>k. parallel_lists_to_tuple_dict list_a list_b k =
      (if k \<in> set list_a then Some (map snd (filter (\<lambda>p. fst p = k) (zip list_a list_b))) else None)"
    by (simp add: parallel_lists_to_tuple_dict_def tuple_dict_loop_lookup keys)
  show ?thesis
    by (auto simp: look dom_def)
qed

theorem grouped_index_example:
  "length [''a'', ''b'', ''a''] = length [1, 2, 3 :: int] \<and>
   dom (parallel_lists_to_tuple_dict [''a'', ''b'', ''a''] [1, 2, 3 :: int]) = {''a'', ''b''} \<and>
   parallel_lists_to_tuple_dict [''a'', ''b'', ''a''] [1, 2, 3 :: int] ''a'' = Some [1, 3] \<and>
   parallel_lists_to_tuple_dict [''a'', ''b'', ''a''] [1, 2, 3 :: int] ''b'' = Some [2]"
  using grouped_index_lookup [of "[''a'', ''b'', ''a'']" "[1, 2, 3 :: int]"]
  by auto

section \<open>The reader\<close>

lemma build_departments_names:
  "build_departments C base ul pl deps matched = Inr ds \<Longrightarrow>
     \<exists>new. ds = deps @ new \<and>
       list_all2 (\<lambda>pair dep. name dep = snd pair \<and>
          alternate_names dep = (if fst pair \<noteq> snd pair then [fst pair] else [])) matched new"
proof (induction matched arbitrary: deps)
  case Nil
  then show ?case by simp
next
  case (Cons p rest)
  obtain m t where p: "p = (m, t)" by (cases p)
  from Cons.prems obtain pfxs rel where
    rec: "build_departments C base ul pl
            (deps @ [Department_init C t (if m \<noteq> t then [m] else []) pfxs base rel]) rest = Inr ds"
    unfolding p by (auto simp: Let_def and_then_eq_Inr)
  from Cons.IH [OF rec] obtain new where
    new: "ds = (deps @ [Department_init C t (if m \<noteq> t then [m] else []) pfxs base rel]) @ new"
    and all: "list_all2 (\<lambda>pair dep. name dep = snd pair \<and>
          alternate_names dep = (if fst pair \<noteq> snd pair then [fst pair] else [])) rest new"
    by blast
  show ?case
    unfolding p using new all
    by (intro exI [of _ "Department_init C t (if m \<noteq> t then [m] else []) pfxs base rel # new"])
       (simp add: Department_init_def)
qed

text \<open>
  Claim C8. Every department built from a matched pair (name of the menu, name of the
  prefix table) has the table's name as its name, and its alternate names are the menu's
  name alone when the two names differ, and empty when they are equal.
\<close>

theorem department_names:
  "build_departments C base url_lookup prefix_lookup [] matched_depts = Inr deps \<Longrightarrow>
     list_all2 (\<lambda>pair dep. name dep = snd pair \<and>
        alternate_names dep = (if fst pair \<noteq> snd pair then [fst pair] else []))
       matched_depts deps"
  using build_departments_names [of C base url_lookup prefix_lookup "[]" matched_depts deps]
  by simp

lemma example_build_departments:
  "build_departments example_collaborators example_base_url (py_dict example_menu)
     (parallel_lists_to_tuple_dict (map snd example_table) (map fst example_table)) []
     [(''MATH'', ''Mathematics''), (''Physics'', ''Physics'')]
   = Inr example_departments"
  by code_simp

theorem department_names_witness:
  "build_departments example_collaborators example_base_url (py_dict example_menu)
     (parallel_lists_to_tuple_dict (map snd example_table) (map fst example_table)) []
     [(''MATH'', ''Mathematics''), (''Physics'', ''Physics'')]
   = Inr example_departments \<and>
   list_all2 (\<lambda>pair dep. name dep = snd pair \<and>
        alternate_names dep = (if fst pair \<noteq> snd pair then [fst pair] else []))
     [(''MATH'', ''Mathematics''), (''Physics'', ''Physics'')] example_departments"
  using department_names [OF example_build_departments] example_build_departments
  by simp

text \<open>
  Claim C9. When the year is before 2001, or before 2005 and only the web listings are
  asked for, the constructor raises (a \<open>KeyError\<close>) and the browser has loaded nothing
  more than before, whatever the semester is.
\<close>

theorem init_rejects_year:
  "int_of_year year = Inr y \<Longrightarrow> y < 2001 \<or> (\<not> full \<and> y < 2005) \<Longrightarrow>
     CourseReader_init year sem full b = (Inl KeyError, b)"
  by (auto simp: CourseReader_init_def)

lemma example_int_of_year: "int_of_year (YearStr ''1999'') = Inr 1999"
  by code_simp

theorem init_rejects_year_witness:
  "int_of_year (YearStr ''1999'') = Inr 1999 \<and>
   CourseReader_init (YearStr ''1999'') FALL True \<lparr>requests = []\<rparr>
     = (Inl KeyError, \<lparr>requests = []\<rparr>) \<and>
   CourseReader_init (YearInt 2003) SPRING False \<lparr>requests = []\<rparr>
     = (Inl KeyError, \<lparr>requests = []\<rparr>)"
  using init_rejects_year [OF example_int_of_year, of True FALL "\<lparr>requests = []\<rparr>"]
    init_rejects_year [of "YearInt 2003" 2003 False SPRING "\<lparr>requests = []\<rparr>"]
    example_int_of_year
  by (simp add: int_of_year_def)

text \<open>
  Claim C10. The variable \<open>month\<close> is assigned exactly when the semester is one of
  \<open>SPRING\<close>, \<open>SUMMER\<close> and \<open>FALL\<close>. With any other semester the constructor never
  returns a reader: when the year passes the checks, building the url fails on the unbound
  variable.
\<close>

theorem init_needs_semester:
  "(month_of sem = None \<longleftrightarrow> sem \<notin> {SPRING, SUMMER, FALL}) \<and>
   (sem \<notin> {SPRING, SUMMER, FALL} \<longrightarrow>
      (\<forall>r. fst (CourseReader_init year sem full b) \<noteq> Inr r) \<and>
      (\<forall>y. int_of_year year = Inr y \<and> \<not> y < 2001 \<and> \<not> (\<not> full \<and> y < 2005) \<longrightarrow>
          CourseReader_init year sem full b = (Inl UnboundLocalError, b)))"
  by (cases "int_of_year year") (auto simp: CourseReader_init_def month_of_def)

theorem init_needs_semester_witness:
  "OtherValue \<notin> {SPRING, SUMMER, FALL} \<and> month_of OtherValue = None \<and>
   CourseReader_init (YearInt 2011) OtherValue True \<lparr>requests = []\<rparr>
     = (Inl UnboundLocalError, \<lparr>requests = []\<rparr>)"
  using init_needs_semester [of OtherValue "YearInt 2011" True "\<lparr>requests = []\<rparr>"]
  by (simp add: int_of_year_def)

lemma example_init:
  "CourseReader_init (YearInt 2011) FALL True \<lparr>requests = []\<rparr>
     = (Inr example_reader, \<lparr>requests = []\<rparr>)"
  by code_simp

section \<open>Lazy loading\<close>







end
